theory Spec2Isabelle
  imports Complex_Main
begin

section \<open>Array primitives\<close>

text \<open>
  The simulator of \<^verbatim>\<open>app.py\<close> works on one-dimensional NumPy arrays of floats.
  A field is modelled as a list of reals; array arithmetic is elementwise, and a
  scalar is broadcast over the array. The arithmetic of the definitions of this and
  the next two sections is that of the reals: they give what the script computes when
  no operation rounds. Where a property depends on the rounding of the binary64
  operations, the operations are rounded explicitly (section on rounded arithmetic).
\<close>

type_synonym field = "real list"

definition vsub :: "field \<Rightarrow> field \<Rightarrow> field" where
  "vsub a b = map2 (-) a b"

definition vadd :: "field \<Rightarrow> field \<Rightarrow> field" where
  "vadd a b = map2 (+) a b"

definition smul :: "real \<Rightarrow> field \<Rightarrow> field" where
  "smul c a = map ((*) c) a"

text \<open>
  \<^verbatim>\<open>np.roll(a, shift)\<close> on a one-dimensional array, as NumPy computes it: the offset
  is \<^verbatim>\<open>shift % (n or 1)\<close>; when it is nonzero, \<^verbatim>\<open>result[offset:] = a[:-offset]\<close> and
  \<^verbatim>\<open>result[:offset] = a[-offset:]\<close>; otherwise the result is a copy of \<^verbatim>\<open>a\<close>.
\<close>

definition roll :: "field \<Rightarrow> int \<Rightarrow> field" where
  "roll a shift =
     (let n = length a;
          offset = nat (shift mod int (if n = 0 then 1 else n))
      in if offset = 0 then a
         else drop (n - offset) a @ take (n - offset) a)"

section \<open>The update formulas\<close>

text \<open>Line 69: \<^verbatim>\<open>u - 0.5 * C * (np.roll(u, -1) - np.roll(u, 1))\<close>.\<close>

definition fecs_step :: "real \<Rightarrow> field \<Rightarrow> field" where
  "fecs_step C u = vsub u (smul (0.5 * C) (vsub (roll u (-1)) (roll u 1)))"

text \<open>Line 81: \<^verbatim>\<open>u - C * (u - np.roll(u, 1))\<close>.\<close>

definition upwind_step :: "real \<Rightarrow> field \<Rightarrow> field" where
  "upwind_step C u = vsub u (smul C (vsub u (roll u 1)))"

text \<open>Line 95: \<^verbatim>\<open>u_prev - C * (np.roll(u_curr, -1) - np.roll(u_curr, 1))\<close>.\<close>

definition leapfrog_step :: "real \<Rightarrow> field \<Rightarrow> field \<Rightarrow> field" where
  "leapfrog_step C u_prev u_curr =
     vsub u_prev (smul C (vsub (roll u_curr (-1)) (roll u_curr 1)))"

text \<open>Lines 108 to 110: the two terms of Lax-Wendroff and their combination.\<close>

definition lw_step :: "real \<Rightarrow> field \<Rightarrow> field" where
  "lw_step C u =
     (let term1 = smul (0.5 * C) (vsub (roll u (-1)) (roll u 1));
          term2 = smul (0.5 * C ^ 2)
                    (vadd (vsub (roll u (-1)) (smul 2 u)) (roll u 1))
      in vadd (vsub u term1) term2)"

section \<open>The integrators\<close>

text \<open>
  The loops of FECS, Upwind and Lax-Wendroff (lines 68 to 72, 80 to 84 and 107 to 113)
  are the same loop around three update formulas: the state is the current field
  \<^verbatim>\<open>u\<close>, the list of snapshots \<^verbatim>\<open>u_all\<close> and the list \<^verbatim>\<open>mass\<close>. The first
  argument is the update formula, the third the number of iterations left.
\<close>

fun time_loop ::
  "(field \<Rightarrow> field) \<Rightarrow> real \<Rightarrow> nat \<Rightarrow> field \<times> field list \<times> real list
     \<Rightarrow> field \<times> field list \<times> real list" where
  "time_loop upd dx 0 s = s"
| "time_loop upd dx (Suc n) (u, u_all, mass) =
     (let u_next = upd u
      in time_loop upd dx n (u_next, u_all @ [u_next], mass @ [sum_list u_next * dx]))"

text \<open>
  \<^verbatim>\<open>range(Nt)\<close> runs \<^verbatim>\<open>Nt\<close> times for a positive \<^verbatim>\<open>Nt\<close> and not at all otherwise:
  \<^term>\<open>nat Nt\<close> iterations.
\<close>

definition one_level :: "(field \<Rightarrow> field) \<Rightarrow> field \<Rightarrow> real \<Rightarrow> int \<Rightarrow> field list \<times> real list" where
  "one_level upd u0 dx Nt =
     (case time_loop upd dx (nat Nt) (u0, [u0], [sum_list u0 * dx]) of
        (u, u_all, mass) \<Rightarrow> (u_all, mass))"

definition fecs :: "field \<Rightarrow> real \<Rightarrow> real \<Rightarrow> int \<Rightarrow> field list \<times> real list" where
  "fecs u0 C dx Nt = one_level (fecs_step C) u0 dx Nt"

definition upwind :: "field \<Rightarrow> real \<Rightarrow> real \<Rightarrow> int \<Rightarrow> field list \<times> real list" where
  "upwind u0 C dx Nt = one_level (upwind_step C) u0 dx Nt"

definition lax_wendroff :: "field \<Rightarrow> real \<Rightarrow> real \<Rightarrow> int \<Rightarrow> field list \<times> real list" where
  "lax_wendroff u0 C dx Nt = one_level (lw_step C) u0 dx Nt"

text \<open>
  Leapfrog (lines 89 to 101) keeps two fields. The bootstrap field of line 90 is
  computed and stored before the loop, which runs \<^verbatim>\<open>range(Nt - 1)\<close>.
\<close>

fun leapfrog_loop ::
  "real \<Rightarrow> real \<Rightarrow> nat \<Rightarrow> field \<times> field \<times> field list \<times> real list
     \<Rightarrow> field \<times> field \<times> field list \<times> real list" where
  "leapfrog_loop C dx 0 s = s"
| "leapfrog_loop C dx (Suc n) (u_prev, u_curr, u_all, mass) =
     (let u_next = leapfrog_step C u_prev u_curr
      in leapfrog_loop C dx n
           (u_curr, u_next, u_all @ [u_next], mass @ [sum_list u_next * dx]))"

definition leapfrog :: "field \<Rightarrow> real \<Rightarrow> real \<Rightarrow> int \<Rightarrow> field list \<times> real list" where
  "leapfrog u0 C dx Nt =
     (let u_prev = u0;
          u_curr = vsub u_prev (smul (0.5 * C) (vsub (roll u_prev (-1)) (roll u_prev 1)))
      in case leapfrog_loop C dx (nat (Nt - 1))
                (u_prev, u_curr, [u_prev, u_curr],
                 [sum_list u_prev * dx, sum_list u_curr * dx]) of
           (u_prev', u_curr', u_all, mass) \<Rightarrow> (u_all, mass))"

text \<open>
  One iteration of the Leapfrog loop seen on the pair \<^verbatim>\<open>(u_prev, u_curr)\<close> alone
  (lines 95 to 97); it is used to describe the snapshots of the loop.
\<close>

definition lf_pair :: "real \<Rightarrow> field \<times> field \<Rightarrow> field \<times> field" where
  "lf_pair C pc = (snd pc, leapfrog_step C (fst pc) (snd pc))"

section \<open>Grid, initial condition and the derived parameters\<close>

datatype error = ZeroDivisionError | ValueError

text \<open>Python's float division raises \<^verbatim>\<open>ZeroDivisionError\<close> on a zero divisor.\<close>

definition py_div :: "real \<Rightarrow> real \<Rightarrow> error + real" where
  "py_div a b = (if b = 0 then Inl ZeroDivisionError else Inr (a / b))"

text \<open>Python 3's \<^verbatim>\<open>round\<close> of a float: to the nearest integer, a tie to the even one.\<close>

definition py_round :: "real \<Rightarrow> int" where
  "py_round x =
     (let f = \<lfloor>x\<rfloor>; d = x - of_int f
      in if d < 1 / 2 then f
         else if 1 / 2 < d then f + 1
         else if even f then f else f + 1)"

text \<open>
  \<^verbatim>\<open>np.linspace(start, stop, num)\<close> with the endpoint included: a negative \<^verbatim>\<open>num\<close>
  raises \<^verbatim>\<open>ValueError\<close>; otherwise the samples are \<^verbatim>\<open>i * step + start\<close> with
  \<^verbatim>\<open>step = (stop - start) / (num - 1)\<close> (\<^verbatim>\<open>i * (stop - start) + start\<close> when
  \<^verbatim>\<open>num - 1\<close> is not positive), and the last of more than one sample is set to
  \<^verbatim>\<open>stop\<close>.
\<close>

definition linspace :: "real \<Rightarrow> real \<Rightarrow> int \<Rightarrow> error + field" where
  "linspace start stop num =
     (if num < 0 then Inl ValueError
      else
        let dv = num - 1;
            delta = stop - start;
            y = map (\<lambda>i. if 0 < dv then real i * (delta / of_int dv) + start
                         else real i * delta + start) [0..<nat num]
        in Inr (if 1 < num then butlast y @ [stop] else y))"

text \<open>Lines 43 and 44: \<^verbatim>\<open>x = np.linspace(0, L, Nx + 1)\<close>, then \<^verbatim>\<open>x = x[:-1]\<close>.\<close>

definition grid :: "real \<Rightarrow> int \<Rightarrow> error + field" where
  "grid L Nx = (case linspace 0 L (Nx + 1) of Inl e \<Rightarrow> Inl e | Inr x \<Rightarrow> Inr (butlast x))"

text \<open>
  Lines 46 to 57. The shape is the string of the select box; an unknown shape gives
  the zero field. The last parameter (the domain length) is not used by the source.
  The division by \<^verbatim>\<open>sig\<close> is NumPy's: on a zero \<^verbatim>\<open>sig\<close> it gives \<^verbatim>\<open>inf\<close> or
  \<^verbatim>\<open>nan\<close> with a warning and raises nothing, so the function has no error result;
  its values are those of the source for a nonzero \<^verbatim>\<open>sig\<close> only. The comparison
  with \<^verbatim>\<open>sig\<close> is that of the reals: a point at distance exactly \<^verbatim>\<open>sig\<close> from the
  centre is outside the pulse here, where the rounded distance of the floats can fall
  on either side. The fields evaluated below have no point at that distance.
\<close>

definition get_initial_condition :: "field \<Rightarrow> string \<Rightarrow> real \<Rightarrow> real \<Rightarrow> real \<Rightarrow> field" where
  "get_initial_condition x shape sig center len =
     (if shape = ''Gaussian Bell'' then
        map (\<lambda>xi. exp (- 0.5 * ((xi - center) / sig) ^ 2)) x
      else if shape = ''Square Pulse'' then
        map (\<lambda>xi. if \<bar>xi - center\<bar> < sig then 1.0 else 0.0) x
      else if shape = ''Triangle Wave'' then
        map (\<lambda>xi. if \<bar>xi - center\<bar> < sig then 1.0 - \<bar>xi - center\<bar> / sig else 0.0) x
      else if shape = ''Cosine Hat'' then
        map (\<lambda>xi. let r = \<bar>xi - center\<bar>
                   in if r < sig then (cos (pi * r / (2 * sig))) ^ 2 else 0.0) x
      else map (\<lambda>xi. 0) x)"

text \<open>The values of the sidebar widgets (lines 12 to 41).\<close>

record config =
  wave_shape :: string
  cfg_L :: real
  cfg_v :: real
  cfg_T_max :: real
  cfg_Nx :: int
  cfg_C :: real
  show_fecs :: bool
  show_upwind :: bool
  show_leapfrog :: bool
  show_lw :: bool
  cfg_sigma :: real
  cfg_x0 :: real

text \<open>
  Lines 24 to 26: \<^verbatim>\<open>dx\<close>, \<^verbatim>\<open>dt\<close> and \<^verbatim>\<open>Nt\<close>, each division able to raise on a
  zero divisor. The quotients are those of the reals. The script's floats agree with
  them on the zero divisors; they can round \<^verbatim>\<open>T_max / dt\<close> across a half-integer,
  let \<^verbatim>\<open>dt\<close> underflow to zero, or overflow, where \<^verbatim>\<open>int(round(...))\<close> raises
  \<^verbatim>\<open>OverflowError\<close>: none of this is modelled, and \<open>derive\<close> is evaluated below
  only on configurations for which the floats give the same \<^verbatim>\<open>Nt\<close>.
\<close>

definition derive :: "config \<Rightarrow> error + (real \<times> real \<times> int)" where
  "derive cfg =
     (case py_div (cfg_L cfg) (of_int (cfg_Nx cfg)) of
        Inl e \<Rightarrow> Inl e
      | Inr dx \<Rightarrow>
          (case py_div (cfg_C cfg * dx) (cfg_v cfg) of
             Inl e \<Rightarrow> Inl e
           | Inr dt \<Rightarrow>
               (case py_div (cfg_T_max cfg) dt of
                  Inl e \<Rightarrow> Inl e
                | Inr q \<Rightarrow> Inr (dx, dt, py_round q))))"




section \<open>Example configurations\<close>

text \<open>
  Slider values inside the ranges of the sidebar for which \<^verbatim>\<open>Nt\<close> is zero:
  \<^verbatim>\<open>dx = 2\<close>, \<^verbatim>\<open>dt = 40\<close> and \<^verbatim>\<open>T_max / dt = 0.0025\<close>.
\<close>

definition cfg_nt0 :: config where
  "cfg_nt0 = \<lparr>wave_shape = ''Square Pulse'', cfg_L = 100, cfg_v = 0.1, cfg_T_max = 0.1,
     cfg_Nx = 50, cfg_C = 2, show_fecs = True, show_upwind = True, show_leapfrog = True,
     show_lw = True, cfg_sigma = 0.05, cfg_x0 = 25\<rparr>"



section \<open>Rounded arithmetic\<close>

text \<open>
  Two to the power of an integer.
\<close>

definition pow2 :: "int \<Rightarrow> real" where
  "pow2 e = (if 0 \<le> e then 2 ^ nat e else 1 / 2 ^ nat (- e))"

text \<open>
  The rounding of one binary64 operation in the default mode of IEEE 754: the exact
  result is replaced by the nearest number with a significand of 53 bits, a tie going
  to the even significand. With \<^verbatim>\<open>e\<close> the binary exponent of \<^verbatim>\<open>x\<close>, the numbers of
  that binade are the multiples of \<^verbatim>\<open>2 ^ (e - 52)\<close>. The exponent is not bounded here:
  overflow to infinity and the subnormal numbers are not modelled, so this is the
  float operation for results in the normal range.
\<close>

definition rnd64 :: "real \<Rightarrow> real" where
  "rnd64 x =
     (if x = 0 then 0
      else let e = \<lfloor>log 2 \<bar>x\<bar>\<rfloor>; q = pow2 (e - 52)
           in of_int (py_round (x / q)) * q)"

text \<open>
  Line 81 with each of its three operations rounded, in the order NumPy evaluates
  them: \<^verbatim>\<open>u - np.roll(u, 1)\<close>, then the product with \<^verbatim>\<open>C\<close>, then the subtraction
  from \<^verbatim>\<open>u\<close>. The rounding is a parameter; the identity gives \<open>upwind_step\<close>.
\<close>

definition upwind_step_fl :: "(real \<Rightarrow> real) \<Rightarrow> real \<Rightarrow> field \<Rightarrow> field" where
  "upwind_step_fl rnd C u = map2 (\<lambda>a r. rnd (a - rnd (C * rnd (a - r)))) u (roll u 1)"

text \<open>
  The Upwind run with the rounded update. Only its snapshots are used below; the mass
  entries of this variant are still sums over the reals.
\<close>

definition upwind_fl ::
  "(real \<Rightarrow> real) \<Rightarrow> field \<Rightarrow> real \<Rightarrow> real \<Rightarrow> int \<Rightarrow> field list \<times> real list" where
  "upwind_fl rnd u0 C dx Nt = one_level (upwind_step_fl rnd C) u0 dx Nt"

text \<open>
  A field on which the first subtraction of line 81 does not round: its entries are
  representable, and so is the difference of every entry and its left neighbour.
  Every field is such in exact arithmetic; with binary64 rounding a field of zeros
  and ones is.
\<close>

definition exact_on :: "(real \<Rightarrow> real) \<Rightarrow> field \<Rightarrow> bool" where
  "exact_on rnd u =
     ((\<forall>x \<in> set u. rnd x = x)
      \<and> (\<forall>i < length u. rnd (u ! i - roll u 1 ! i) = u ! i - roll u 1 ! i))"

section \<open>Discrete energy\<close>





section \<open>Circular shift\<close>

lemma length_roll: "length (roll a k) = length a"
  by (auto simp: roll_def Let_def)

lemma roll_nth:
  assumes "i < length a"
  shows "roll a k ! i = a ! nat ((int i - k) mod int (length a))"
proof -
  let ?n = "length a"
  have npos: "0 < int ?n" using assms by auto
  let ?off = "k mod int ?n"
  have off: "0 \<le> ?off" "?off < int ?n" using npos by simp_all
  have idx: "(int i - k) mod int ?n = (int i - ?off) mod int ?n"
    by (simp add: mod_diff_right_eq)
  show ?thesis
  proof (cases "?off = 0")
    case True
    then have "(int i - k) mod int ?n = int i" using idx assms by simp
    moreover have "roll a k = a" using True assms by (simp add: roll_def Let_def)
    ultimately show ?thesis by simp
  next
    case False
    then have r: "roll a k = drop (?n - nat ?off) a @ take (?n - nat ?off) a"
      using assms off by (auto simp: roll_def Let_def)
    show ?thesis
    proof (cases "int i < ?off")
      case True
      have "(int i - ?off) mod int ?n = (int i - ?off + int ?n) mod int ?n"
        by simp
      also have "\<dots> = int i - ?off + int ?n"
        using True off assms by (intro mod_pos_pos_trivial) linarith+
      finally have "nat ((int i - k) mod int ?n) = ?n - nat ?off + i"
        using idx True off by linarith
      moreover have "i < nat ?off" using True off by linarith
      then have "roll a k ! i = a ! (?n - nat ?off + i)"
        using off assms by (simp add: r nth_append)
      ultimately show ?thesis by simp
    next
      case False
      then have "(int i - ?off) mod int ?n = int i - ?off"
        using off assms by (intro mod_pos_pos_trivial) linarith+
      then have "nat ((int i - k) mod int ?n) = i - nat ?off"
        using idx False off by linarith
      moreover have "\<not> i < nat ?off" "nat ?off \<le> ?n" using False off by linarith+
      then have "roll a k ! i = a ! (i - nat ?off)"
        using off assms by (simp add: r nth_append min_def)
      ultimately show ?thesis by simp
    qed
  qed
qed

lemma roll_right: "i < length u \<Longrightarrow> roll u (-1) ! i = u ! ((i + 1) mod length u)"
  by (simp add: roll_nth nat_mod_distrib nat_add_distrib flip: of_nat_Suc zmod_int)
lemma roll_left: "i < length u \<Longrightarrow> roll u 1 ! i = u ! ((i + length u - 1) mod length u)"
proof -
  assume a: "i < length u"
  have "(int i - 1) mod int (length u) = (int i - 1 + int (length u)) mod int (length u)" by simp
  also have "int i - 1 + int (length u) = int (i + length u - 1)" using a by linarith
  finally have "nat ((int i - 1) mod int (length u)) = (i + length u - 1) mod length u"
    by (simp flip: zmod_int)
  then show ?thesis using a by (simp add: roll_nth)
qed
lemma roll_single: "length u = 1 \<Longrightarrow> roll u k = u"
  by (simp add: roll_def Let_def)

lemma set_roll: "set (roll a k) = set a"
proof (cases "nat (k mod int (if length a = 0 then 1 else length a)) = 0")
  case True
  then show ?thesis by (simp add: roll_def Let_def)
next
  case False
  let ?m = "length a - nat (k mod int (if length a = 0 then 1 else length a))"
  have "roll a k = drop ?m a @ take ?m a" using False by (simp add: roll_def Let_def)
  then have "set (roll a k) = set (take ?m a) \<union> set (drop ?m a)"
    by (simp add: Un_commute)
  also have "\<dots> = set (take ?m a @ drop ?m a)" by (simp only: set_append)
  finally show ?thesis by simp
qed


section \<open>Snapshots of the loops\<close>

lemma time_loop_unfold:
  "time_loop upd dx n (u, u_all, mass) =
     ((upd ^^ n) u,
      u_all @ map (\<lambda>k. (upd ^^ Suc k) u) [0..<n],
      mass @ map (\<lambda>k. sum_list ((upd ^^ Suc k) u) * dx) [0..<n])"
proof (induction n arbitrary: u u_all mass)
  case 0
  show ?case by simp
next
  case (Suc n)
  show ?case
    by (simp add: Suc.IH Let_def funpow_swap1 map_upt_Suc del: upt_Suc)
qed

lemma one_level_history:
  "fst (one_level upd u0 dx Nt) = map (\<lambda>k. (upd ^^ k) u0) [0..<Suc (nat Nt)]"
  by (simp add: one_level_def time_loop_unfold map_upt_Suc del: upt_Suc)

lemma one_level_mass:
  "snd (one_level upd u0 dx Nt) = map (\<lambda>k. sum_list ((upd ^^ k) u0) * dx) [0..<Suc (nat Nt)]"
  by (simp add: one_level_def time_loop_unfold map_upt_Suc del: upt_Suc)

lemma leapfrog_loop_unfold:
  "leapfrog_loop C dx n (p, c, u_all, mass) =
     (fst ((lf_pair C ^^ n) (p, c)), snd ((lf_pair C ^^ n) (p, c)),
      u_all @ map (\<lambda>k. snd ((lf_pair C ^^ Suc k) (p, c))) [0..<n],
      mass @ map (\<lambda>k. sum_list (snd ((lf_pair C ^^ Suc k) (p, c))) * dx) [0..<n])"
proof (induction n arbitrary: p c u_all mass)
  case 0
  show ?case by simp
next
  case (Suc n)
  have sw: "\<And>k. (lf_pair C ^^ k) (c, leapfrog_step C p c) = (lf_pair C ^^ Suc k) (p, c)"
    by (simp add: funpow_swap1 lf_pair_def)
  have one: "snd ((lf_pair C ^^ Suc 0) (p, c)) = leapfrog_step C p c"
    by (simp add: lf_pair_def)
  show ?case
    by (simp add: Suc.IH Let_def sw one map_upt_Suc del: upt_Suc funpow.simps)
qed

lemma leapfrog_history:
  "fst (leapfrog u0 C dx Nt) =
     u0 # map (\<lambda>k. snd ((lf_pair C ^^ k) (u0, fecs_step C u0))) [0..<Suc (nat (Nt - 1))]"
  by (simp add: leapfrog_def Let_def leapfrog_loop_unfold fecs_step_def map_upt_Suc
           del: upt_Suc funpow.simps)

lemma leapfrog_mass:
  "snd (leapfrog u0 C dx Nt) =
     (sum_list u0 * dx) #
     map (\<lambda>k. sum_list (snd ((lf_pair C ^^ k) (u0, fecs_step C u0))) * dx)
       [0..<Suc (nat (Nt - 1))]"
  by (simp add: leapfrog_def Let_def leapfrog_loop_unfold fecs_step_def map_upt_Suc
           del: upt_Suc funpow.simps)

lemma length_vsub: "length (vsub a b) = min (length a) (length b)"
  by (simp add: vsub_def)
lemma length_vadd: "length (vadd a b) = min (length a) (length b)"
  by (simp add: vadd_def)
lemma length_smul: "length (smul c a) = length a"
  by (simp add: smul_def)

lemma sum_list_smul: "sum_list (smul c a) = c * sum_list a"
  by (simp add: smul_def sum_list_const_mult)

lemma sum_list_vsub: "length a = length b \<Longrightarrow> sum_list (vsub a b) = sum_list a - sum_list b"
  unfolding vsub_def by (induction a b rule: list_induct2) simp_all

lemma sum_list_vadd: "length a = length b \<Longrightarrow> sum_list (vadd a b) = sum_list a + sum_list b"
  unfolding vadd_def by (induction a b rule: list_induct2) simp_all

lemma sum_list_roll: "sum_list (roll a k) = sum_list a"
proof (cases "nat (k mod int (if length a = 0 then 1 else length a)) = 0")
  case True
  then show ?thesis by (simp add: roll_def Let_def)
next
  case False
  let ?m = "length a - nat (k mod int (if length a = 0 then 1 else length a))"
  have "roll a k = drop ?m a @ take ?m a" using False by (simp add: roll_def Let_def)
  then have "sum_list (roll a k) = sum_list (take ?m a) + sum_list (drop ?m a)" by simp
  also have "\<dots> = sum_list (take ?m a @ drop ?m a)" by (simp only: sum_list_append)
  finally show ?thesis by simp
qed

lemmas vec_len = length_vsub length_vadd length_smul length_roll
lemmas vec_sum = sum_list_smul sum_list_vsub sum_list_vadd sum_list_roll

lemma length_fecs_step: "length (fecs_step C u) = length u"
  by (simp add: fecs_step_def vec_len)
lemma length_upwind_step: "length (upwind_step C u) = length u"
  by (simp add: upwind_step_def vec_len)
lemma length_lw_step: "length (lw_step C u) = length u"
  by (simp add: lw_step_def Let_def vec_len)
lemma length_leapfrog_step: "length p = length c \<Longrightarrow> length (leapfrog_step C p c) = length c"
  by (simp add: leapfrog_step_def vec_len)

lemma sum_fecs_step: "sum_list (fecs_step C u) = sum_list u"
  by (simp add: fecs_step_def vec_len vec_sum)
lemma sum_upwind_step: "sum_list (upwind_step C u) = sum_list u"
  by (simp add: upwind_step_def vec_len vec_sum)
lemma sum_lw_step: "sum_list (lw_step C u) = sum_list u"
  by (simp add: lw_step_def Let_def vec_len vec_sum)
lemma sum_leapfrog_step:
  "length p = length c \<Longrightarrow> sum_list (leapfrog_step C p c) = sum_list p"
  by (simp add: leapfrog_step_def vec_len vec_sum)

lemma funpow_sum_invariant:
  assumes "\<And>u. sum_list (upd u) = sum_list u"
  shows "sum_list ((upd ^^ k) u) = sum_list (u::field)"
  by (induction k) (simp_all add: assms)

lemma lf_pair_invariant:
  assumes "length p = length c" "sum_list p = s" "sum_list c = s"
  shows "length (fst ((lf_pair C ^^ k) (p, c))) = length (snd ((lf_pair C ^^ k) (p, c)))
       \<and> sum_list (fst ((lf_pair C ^^ k) (p, c))) = s
       \<and> sum_list (snd ((lf_pair C ^^ k) (p, c))) = s"
proof (induction k)
  case 0
  show ?case using assms by simp
next
  case (Suc k)
  then show ?case
    by (simp add: lf_pair_def length_leapfrog_step sum_leapfrog_step)
qed

section \<open>Pointwise form of the updates\<close>

lemma vsub_nth: "i < length a \<Longrightarrow> i < length b \<Longrightarrow> vsub a b ! i = a ! i - b ! i"
  by (simp add: vsub_def)
lemma vadd_nth: "i < length a \<Longrightarrow> i < length b \<Longrightarrow> vadd a b ! i = a ! i + b ! i"
  by (simp add: vadd_def)
lemma smul_nth: "i < length a \<Longrightarrow> smul c a ! i = c * a ! i"
  by (simp add: smul_def)

lemma fecs_step_nth:
  "i < length u \<Longrightarrow>
   fecs_step C u ! i = u ! i - 0.5 * C * (roll u (-1) ! i - roll u 1 ! i)"
  by (simp add: fecs_step_def vsub_nth smul_nth vec_len)

lemma upwind_step_nth:
  "i < length u \<Longrightarrow> upwind_step C u ! i = u ! i - C * (u ! i - roll u 1 ! i)"
  by (simp add: upwind_step_def vsub_nth smul_nth vec_len)

lemma roll_roll: "roll (roll u a) b = roll u (a + b)"
proof (rule nth_equalityI)
  show "length (roll (roll u a) b) = length (roll u (a + b))" by (simp add: length_roll)
next
  fix i assume "i < length (roll (roll u a) b)"
  then have i: "i < length u" by (simp add: length_roll)
  let ?n = "int (length u)"
  have npos: "0 < ?n" using i by auto
  have j: "nat ((int i - b) mod ?n) < length u" using npos by (simp add: nat_less_iff)
  have "roll (roll u a) b ! i = roll u a ! nat ((int i - b) mod ?n)"
    using i by (simp add: roll_nth length_roll)
  also have "\<dots> = u ! nat ((int (nat ((int i - b) mod ?n)) - a) mod ?n)"
    using j by (simp add: roll_nth)
  also have "int (nat ((int i - b) mod ?n)) = (int i - b) mod ?n" using npos by simp
  also have "((int i - b) mod ?n - a) mod ?n = (int i - (a + b)) mod ?n"
    by (simp add: mod_diff_left_eq algebra_simps)
  finally show "roll (roll u a) b ! i = roll u (a + b) ! i"
    using i by (simp add: roll_nth)
qed

lemma roll_zero: "roll u 0 = u"
  by (simp add: roll_def Let_def)


section \<open>Growth of FECS in the maximum norm\<close>







section \<open>Number of snapshots\<close>

lemma one_level_lengths:
  "length (fst (one_level upd u0 dx Nt)) = nat Nt + 1 \<and>
   length (snd (one_level upd u0 dx Nt)) = nat Nt + 1"
  by (simp add: one_level_history one_level_mass)

lemma leapfrog_lengths:
  "length (fst (leapfrog u0 C dx Nt)) = nat (Nt - 1) + 2 \<and>
   length (snd (leapfrog u0 C dx Nt)) = nat (Nt - 1) + 2"
  by (simp add: leapfrog_history leapfrog_mass)

lemma leapfrog_lengths_pos:
  "1 \<le> Nt \<Longrightarrow> length (fst (leapfrog u0 C dx Nt)) = nat Nt + 1 \<and>
   length (snd (leapfrog u0 C dx Nt)) = nat Nt + 1"
  by (simp add: leapfrog_lengths)

lemma derive_cfg_nt0: "derive cfg_nt0 = Inr (2, 40, 0)"
  by (simp add: derive_def cfg_nt0_def py_div_def py_round_def Let_def)

text \<open>
  Claim C1 says that every scheme returns exactly \<^verbatim>\<open>Nt + 1\<close> snapshots and mass
  entries for every \<^verbatim>\<open>Nt \<ge> 0\<close>. The three one-level schemes do
  (\<open>one_level_lengths\<close>), and Leapfrog does from \<^verbatim>\<open>Nt = 1\<close> on
  (\<open>leapfrog_lengths_pos\<close>). At \<^verbatim>\<open>Nt = 0\<close>, which the sliders can produce
  (\<open>derive_cfg_nt0\<close>), Leapfrog has stored the bootstrap field before its loop
  and returns two snapshots and two mass entries for every initial field.
\<close>

theorem leapfrog_zero_steps_length:
  "length (fst (leapfrog u0 C dx 0)) = 2 \<and> length (snd (leapfrog u0 C dx 0)) = 2"
  by (simp add: leapfrog_def Let_def)

text \<open>
  Claim C2 says that a run with \<^verbatim>\<open>Nt = 0\<close> makes no update and returns the history
  \<^verbatim>\<open>[u0]\<close>. Leapfrog at \<^verbatim>\<open>Nt = 0\<close> has made the bootstrap update of line 90: its
  history is the initial field followed by one FECS step of it, its mass trace has the
  two matching entries, and the history is not \<^verbatim>\<open>[u0]\<close>.
\<close>

theorem leapfrog_zero_steps_history:
  "fst (leapfrog u0 C dx 0) = [u0, fecs_step C u0] \<and>
   snd (leapfrog u0 C dx 0) = [sum_list u0 * dx, sum_list (fecs_step C u0) * dx] \<and>
   fst (leapfrog u0 C dx 0) \<noteq> [u0]"
  by (simp add: leapfrog_def Let_def fecs_step_def)

section \<open>The Square Pulse scenario\<close>

lemma grid_1_4: "grid 1 4 = Inr [0, 0.25, 0.5, 0.75]"
  by (simp add: grid_def linspace_def Let_def upt_rec numeral_eq_Suc)

text \<open>
  Claim C3, as stated, is false: the Square Pulse with centre 0.5 and width 0.3 on the
  grid points 0, 0.25, 0.5, 0.75 is not the field 0, 1, 1, 0.
\<close>

theorem square_pulse_scenario_counterexample:
  "get_initial_condition [0, 0.25, 0.5, 0.75] ''Square Pulse'' 0.3 0.5 1 \<noteq> [0, 1, 1, 0]"
  by (simp add: get_initial_condition_def)

text \<open>
  Claim C3, amended: with \<^verbatim>\<open>L = 1\<close> and \<^verbatim>\<open>Nx = 4\<close> the grid is 0, 0.25, 0.5, 0.75, and
  the Square Pulse with centre 0.5 and width 0.3 on it is the field 0, 1, 1, 1: the last
  point is at distance 0.25 from the centre, which is less than 0.3.
\<close>

theorem square_pulse_scenario:
  "grid 1 4 = Inr [0, 0.25, 0.5, 0.75] \<and>
   get_initial_condition [0, 0.25, 0.5, 0.75] ''Square Pulse'' 0.3 0.5 1 = [0, 1, 1, 1]"
  by (simp add: grid_1_4 get_initial_condition_def)

section \<open>The shift convention\<close>

text \<open>
  Claim C4, as stated, is false in its naming of the neighbours: the shift by \<^verbatim>\<open>+1\<close>
  does not put the right neighbour at an index. In the field 1, 2, 3 the right
  neighbour of index 0 is the entry at index 1, and the shift by \<^verbatim>\<open>+1\<close> has the last
  entry there.
\<close>

theorem roll_plus_one_counterexample:
  "roll [1, 2, 3] 1 ! 0 \<noteq> [1, 2, 3] ! ((0 + 1) mod 3)"
  by (simp add: roll_def)

text \<open>
  Claim C4, amended: the shift keeps the length and has
  \<^verbatim>\<open>shift(field, k)[i] = field[(i - k) mod Nx]\<close> at every index; the right neighbour
  (wrapping from last to first) is the shift by \<^verbatim>\<open>-1\<close> and the left neighbour
  (wrapping from first to last) is the shift by \<^verbatim>\<open>+1\<close>, which is how the FECS update
  reads them; on a field of one point every shift is the identity.
\<close>

theorem roll_index_and_neighbours:
  assumes "i < length u"
  shows "length (roll u k) = length u
       \<and> roll u k ! i = u ! nat ((int i - k) mod int (length u))
       \<and> roll u (- 1) ! i = u ! ((i + 1) mod length u)
       \<and> roll u 1 ! i = u ! ((i + length u - 1) mod length u)
       \<and> fecs_step C u ! i
           = u ! i - 0.5 * C * (u ! ((i + 1) mod length u) - u ! ((i + length u - 1) mod length u))
       \<and> (length u = 1 \<longrightarrow> roll u k = u)"
proof -
  have r: "roll u (- 1) ! i = u ! ((i + 1) mod length u)"
    using assms by (rule roll_right)
  have l: "roll u 1 ! i = u ! ((i + length u - 1) mod length u)"
    using assms by (rule roll_left)
  have f: "fecs_step C u ! i
      = u ! i - 0.5 * C * (u ! ((i + 1) mod length u) - u ! ((i + length u - 1) mod length u))"
    using assms by (simp only: fecs_step_nth r l)
  have n: "roll u k ! i = u ! nat ((int i - k) mod int (length u))"
    using assms by (rule roll_nth)
  have s: "length u = 1 \<longrightarrow> roll u k = u"
    by (simp add: roll_single)
  have len: "length (roll u k) = length u"
    by (rule length_roll)
  from len n r l f s show ?thesis by blast
qed

text \<open>
  The amended claim C4 on the field 10, 20, 30 at its last index, with the offset 5,
  and on the one-point field 7.
\<close>

theorem roll_index_and_neighbours_witness:
  "(2::nat) < length [10, 20, 30::real]
   \<and> roll [10, 20, 30] 5 ! 2 = [10, 20, 30] ! nat ((int 2 - 5) mod int (length [10, 20, 30::real]))
   \<and> roll [10, 20, 30] (- 1) ! 2 = 10
   \<and> roll [10, 20, 30] 1 ! 2 = 20
   \<and> fecs_step 1 [10, 20, 30] ! 2 = 35
   \<and> roll [7] 5 = [7]"
proof -
  have h: "(2::nat) < length [10, 20, 30::real]" by simp
  have h1: "(0::nat) < length [7::real]" by simp
  show ?thesis
    using roll_index_and_neighbours [OF h, of 5 1] roll_index_and_neighbours [OF h1, of 5 1]
    by simp
qed

section \<open>Rejection of a configuration\<close>










section \<open>Entries of the histories\<close>

lemma one_level_nth:
  assumes "k \<le> nat Nt"
  shows "fst (one_level upd u0 dx Nt) ! k = (upd ^^ k) u0"
    and "snd (one_level upd u0 dx Nt) ! k = sum_list ((upd ^^ k) u0) * dx"
proof -
  have "k < Suc (nat Nt) - 0" using assms by simp
  then show "fst (one_level upd u0 dx Nt) ! k = (upd ^^ k) u0"
    and "snd (one_level upd u0 dx Nt) ! k = sum_list ((upd ^^ k) u0) * dx"
    unfolding one_level_history one_level_mass by (simp_all only: nth_map_upt add_0)
qed

lemma one_level_last: "last (fst (one_level upd u0 dx Nt)) = (upd ^^ nat Nt) u0"
  by (simp add: one_level_history)

lemma leapfrog_nth_0:
  "fst (leapfrog u0 C dx Nt) ! 0 = u0" "snd (leapfrog u0 C dx Nt) ! 0 = sum_list u0 * dx"
  by (simp_all add: leapfrog_history leapfrog_mass)

lemma leapfrog_nth_Suc:
  assumes "k \<le> nat (Nt - 1)"
  shows "fst (leapfrog u0 C dx Nt) ! Suc k = snd ((lf_pair C ^^ k) (u0, fecs_step C u0))"
    and "snd (leapfrog u0 C dx Nt) ! Suc k
           = sum_list (snd ((lf_pair C ^^ k) (u0, fecs_step C u0))) * dx"
proof -
  have "k < Suc (nat (Nt - 1)) - 0" using assms by simp
  then show "fst (leapfrog u0 C dx Nt) ! Suc k = snd ((lf_pair C ^^ k) (u0, fecs_step C u0))"
    and "snd (leapfrog u0 C dx Nt) ! Suc k
           = sum_list (snd ((lf_pair C ^^ k) (u0, fecs_step C u0))) * dx"
    unfolding leapfrog_history leapfrog_mass by (simp_all only: nth_Cons_Suc nth_map_upt add_0)
qed

lemma leapfrog_mass_nth:
  assumes "int k \<le> Nt"
  shows "snd (leapfrog u0 C dx Nt) ! k = dx * sum_list (fst (leapfrog u0 C dx Nt) ! k)"
proof (cases k)
  case 0
  then show ?thesis by (simp add: leapfrog_nth_0)
next
  case (Suc j)
  then have "j \<le> nat (Nt - 1)" using assms by linarith
  then show ?thesis unfolding Suc by (simp add: leapfrog_nth_Suc)
qed

lemma leapfrog_sum_nth:
  assumes "int k \<le> Nt"
  shows "sum_list (fst (leapfrog u0 C dx Nt) ! k) = sum_list u0"
proof (cases k)
  case 0
  then show ?thesis by (simp add: leapfrog_nth_0)
next
  case (Suc j)
  then have j: "j \<le> nat (Nt - 1)" using assms by linarith
  have "sum_list (snd ((lf_pair C ^^ j) (u0, fecs_step C u0))) = sum_list u0"
    using lf_pair_invariant
      [where p = u0 and c = "fecs_step C u0" and s = "sum_list u0" and C = C and k = j]
    by (simp add: length_fecs_step sum_fecs_step)
  then show ?thesis unfolding Suc by (simp add: leapfrog_nth_Suc [OF j])
qed

section \<open>Upwind at Courant number one\<close>

lemma pow2_powr: "pow2 e = 2 powr (of_int e)"
  by (simp add: pow2_def powr_int)

lemma pow2_pos: "0 < pow2 e"
  by (simp add: pow2_powr)

lemma rnd64_exponent:
  assumes "pow2 e \<le> \<bar>x\<bar>" and "\<bar>x\<bar> < pow2 (e + 1)"
  shows "rnd64 x = of_int (py_round (x / pow2 (e - 52))) * pow2 (e - 52)"
proof -
  have pos: "0 < \<bar>x\<bar>" using assms(1) pow2_pos [of e] by linarith
  then have nz: "x \<noteq> 0" by simp
  have "\<lfloor>log 2 \<bar>x\<bar>\<rfloor> = e"
    using assms pos by (simp add: floor_log_eq_powr_iff pow2_powr)
  then show ?thesis using nz by (simp add: rnd64_def Let_def)
qed

lemma rnd64_zero: "rnd64 0 = 0"
  by (simp add: rnd64_def)

lemma rnd64_one: "rnd64 1 = 1"
  using rnd64_exponent [of 0 1] by (simp add: pow2_def py_round_def Let_def)

lemma rnd64_minus_one: "rnd64 (- 1) = - 1"
  using rnd64_exponent [of 0 "- 1"] by (simp add: pow2_def py_round_def Let_def)

lemma rnd64_below_one: "rnd64 (1 - 1 / 2 ^ 60) = 1"
  using rnd64_exponent [of "- 1" "1 - 1 / 2 ^ 60"]
  by (simp add: pow2_def py_round_def Let_def)

lemma rnd64_below_one_numeral:
  "rnd64 (1152921504606846975 / 1152921504606846976) = 1"
  using rnd64_below_one by simp

lemma length_upwind_step_fl: "length (upwind_step_fl rnd C u) = length u"
  by (simp add: upwind_step_fl_def length_roll)

lemma upwind_step_fl_nth:
  "i < length u \<Longrightarrow>
   upwind_step_fl rnd C u ! i = rnd (u ! i - rnd (C * rnd (u ! i - roll u 1 ! i)))"
  by (simp add: upwind_step_fl_def length_roll)

lemma upwind_step_fl_exact: "upwind_step_fl (\<lambda>x. x) C u = upwind_step C u"
  by (rule nth_equalityI)
     (simp_all add: length_upwind_step_fl length_upwind_step upwind_step_fl_nth upwind_step_nth)

lemma upwind_step_fl_shift:
  assumes "exact_on rnd u"
  shows "upwind_step_fl rnd 1 u = roll u 1"
proof (rule nth_equalityI)
  show "length (upwind_step_fl rnd 1 u) = length (roll u 1)"
    by (simp add: length_upwind_step_fl length_roll)
next
  fix i assume "i < length (upwind_step_fl rnd 1 u)"
  then have i: "i < length u" by (simp add: length_upwind_step_fl)
  have d: "rnd (u ! i - roll u 1 ! i) = u ! i - roll u 1 ! i"
    using assms i by (simp add: exact_on_def)
  have "roll u 1 ! i \<in> set (roll u 1)" using i by (simp add: length_roll)
  then have r: "rnd (roll u 1 ! i) = roll u 1 ! i"
    using assms by (simp add: exact_on_def set_roll)
  show "upwind_step_fl rnd 1 u ! i = roll u 1 ! i"
    by (simp add: upwind_step_fl_nth [OF i] d r)
qed

lemma exact_on_roll:
  assumes "exact_on rnd u"
  shows "exact_on rnd (roll u 1)"
proof -
  have "rnd (roll u 1 ! i - roll (roll u 1) 1 ! i) = roll u 1 ! i - roll (roll u 1) 1 ! i"
    if i: "i < length u" for i
  proof -
    let ?j = "nat ((int i - 1) mod int (length u))"
    have npos: "0 < int (length u)" using i by auto
    have j: "?j < length u" using npos by (simp add: nat_less_iff)
    have a: "roll u 1 ! i = u ! ?j" using i by (rule roll_nth)
    have b: "roll (roll u 1) 1 ! i = roll u 1 ! ?j"
      using roll_nth [of i "roll u 1" 1] i by (simp add: length_roll)
    show ?thesis
      unfolding a b using assms j by (simp add: exact_on_def)
  qed
  then show ?thesis
    using assms by (simp add: exact_on_def set_roll length_roll)
qed

lemma upwind_fl_funpow:
  assumes "exact_on rnd u"
  shows "(upwind_step_fl rnd 1 ^^ k) u = roll u (int k) \<and> exact_on rnd (roll u (int k))"
proof (induction k)
  case 0
  show ?case using assms by (simp add: roll_zero)
next
  case (Suc k)
  have "(upwind_step_fl rnd 1 ^^ Suc k) u = upwind_step_fl rnd 1 (roll u (int k))"
    using Suc.IH by simp
  also have "\<dots> = roll (roll u (int k)) 1"
    using Suc.IH by (simp add: upwind_step_fl_shift)
  also have "\<dots> = roll u (int (Suc k))"
    by (simp add: roll_roll add.commute)
  finally have a: "(upwind_step_fl rnd 1 ^^ Suc k) u = roll u (int (Suc k))" .
  have "exact_on rnd (roll (roll u (int k)) 1)"
    using Suc.IH by (simp add: exact_on_roll)
  then have "exact_on rnd (roll u (int (Suc k)))"
    by (simp add: roll_roll add.commute)
  with a show ?case by simp
qed

text \<open>
  Claim C6, as stated, is false twice. In the direction of the shift: one Upwind
  step with \<^verbatim>\<open>C = 1\<close> on the field 1, 0, 0 gives 0, 1, 0 and not the field shifted
  left by one position, which is the shift by \<^verbatim>\<open>-1\<close>, the field 0, 0, 1. And in
  being a pure shift for every field: on the field 1, \<^verbatim>\<open>2 ^ -60\<close> the binary64
  subtraction \<^verbatim>\<open>1 - 2 ^ -60\<close> rounds to 1, and the step puts 0 at index 0, where either
  shift has \<^verbatim>\<open>2 ^ -60\<close>.
\<close>

theorem upwind_float_counterexample:
  "last (fst (upwind_fl rnd64 [1, 0, 0] 1 1 1)) \<noteq> roll [1, 0, 0] (- 1)
   \<and> upwind_step_fl rnd64 1 [1, 1 / 2 ^ 60] ! 0 \<noteq> roll [1, 1 / 2 ^ 60] 1 ! 0
   \<and> upwind_step_fl rnd64 1 [1, 1 / 2 ^ 60] ! 0 \<noteq> roll [1, 1 / 2 ^ 60] (- 1) ! 0"
proof -
  have a: "upwind_step_fl rnd64 1 [1, 0, 0] = [0, 1, 0]"
    by (simp add: upwind_step_fl_def roll_def rnd64_zero rnd64_one rnd64_minus_one)
  have b: "upwind_step_fl rnd64 1 [1, 1 / 2 ^ 60] ! 0 = 0"
    by (simp add: upwind_step_fl_def roll_def rnd64_zero rnd64_one rnd64_below_one_numeral)
  show ?thesis
    unfolding b by (simp add: upwind_fl_def one_level_last a roll_def)
qed

text \<open>
  Claim C6, amended: with \<^verbatim>\<open>C = 1\<close>, on every initial field on which the subtraction
  of an entry and its left neighbour does not round (every field in exact arithmetic,
  by \<open>upwind_step_fl_exact\<close>; a field of zeros and ones in binary64), an Upwind
  step is the pure shift by \<^verbatim>\<open>+1\<close>, in which every point takes the value of its left
  neighbour; and for every \<^verbatim>\<open>Nt \<ge> 0\<close> the history has \<^verbatim>\<open>Nt + 1\<close> snapshots whose
  last is the initial field shifted by \<^verbatim>\<open>+Nt\<close>, that is shifted right by \<^verbatim>\<open>Nt\<close>
  positions: \<^verbatim>\<open>final[i] = u0[(i - Nt) mod Nx]\<close>.
\<close>

theorem upwind_courant_one:
  assumes "exact_on rnd u0" and "0 \<le> Nt" and "i < length u0"
  shows "upwind_step_fl rnd 1 u0 = roll u0 1
       \<and> length (fst (upwind_fl rnd u0 1 dx Nt)) = nat Nt + 1
       \<and> last (fst (upwind_fl rnd u0 1 dx Nt)) = roll u0 Nt
       \<and> last (fst (upwind_fl rnd u0 1 dx Nt)) ! i = u0 ! nat ((int i - Nt) mod int (length u0))"
proof -
  have l: "last (fst (upwind_fl rnd u0 1 dx Nt)) = roll u0 Nt"
    using assms(2) upwind_fl_funpow [OF assms(1), of "nat Nt"]
    by (simp add: upwind_fl_def one_level_last)
  have n: "roll u0 Nt ! i = u0 ! nat ((int i - Nt) mod int (length u0))"
    using assms(3) by (rule roll_nth)
  show ?thesis
    using l n by (simp add: upwind_step_fl_shift [OF assms(1)] upwind_fl_def one_level_lengths)
qed

text \<open>
  The amended claim C6 with binary64 rounding on the field 1, 0, 0 with two steps:
  the last snapshot is 0, 0, 1, the field moved right twice.
\<close>

theorem upwind_courant_one_witness:
  "exact_on rnd64 [1, 0, 0] \<and> (0::int) \<le> 2 \<and> (0::nat) < length [1, 0, 0::real]
   \<and> upwind_step_fl rnd64 1 [1, 0, 0] = [0, 1, 0]
   \<and> length (fst (upwind_fl rnd64 [1, 0, 0] 1 1 2)) = 3
   \<and> last (fst (upwind_fl rnd64 [1, 0, 0] 1 1 2)) = [0, 0, 1]
   \<and> last (fst (upwind_fl rnd64 [1, 0, 0] 1 1 2)) ! 0 = 0"
proof -
  have h0: "exact_on rnd64 [1, 0, 0]"
    by (simp add: exact_on_def roll_def rnd64_zero rnd64_one rnd64_minus_one
        less_Suc_eq all_conj_distrib)
  have h1: "(0::int) \<le> 2" by simp
  have h2: "(0::nat) < length [1, 0, 0::real]" by simp
  show ?thesis
    using h0 upwind_courant_one [OF h0 h1 h2, where dx = 1]
    by (simp add: roll_def)
qed

section \<open>The bootstrap of Leapfrog\<close>

text \<open>
  Claim C7: for every initial field, every \<^verbatim>\<open>C\<close> and every \<^verbatim>\<open>Nt\<close>, the history of
  Leapfrog starts with the initial field, and its entry 1 is the FECS update of entry 0,
  the same field as entry 1 of a FECS run of one step: at every index \<^verbatim>\<open>i\<close> it is
  \<^verbatim>\<open>u0[i] - 0.5 * C * (R - L)\<close> with \<^verbatim>\<open>R\<close> the right and \<^verbatim>\<open>L\<close> the left neighbour of
  \<^verbatim>\<open>u0[i]\<close> on the periodic grid. It does not depend on \<^verbatim>\<open>Nt\<close>, so not on any later
  entry.
\<close>

theorem leapfrog_bootstrap:
  assumes "i < length u0"
  shows "fst (leapfrog u0 C dx Nt) ! 0 = u0
       \<and> fst (leapfrog u0 C dx Nt) ! 1 = fecs_step C u0
       \<and> fst (leapfrog u0 C dx Nt) ! 1 = fst (fecs u0 C dx 1) ! 1
       \<and> fst (leapfrog u0 C dx Nt) ! 1 ! i
           = u0 ! i - 0.5 * C * (u0 ! ((i + 1) mod length u0) - u0 ! ((i + length u0 - 1) mod length u0))"
proof -
  have b: "fst (leapfrog u0 C dx Nt) ! 1 = fecs_step C u0"
    using leapfrog_nth_Suc(1) [of 0 Nt u0 C dx] by simp
  have f: "fst (fecs u0 C dx 1) ! 1 = fecs_step C u0"
    using one_level_nth(1) [of 1 1 "fecs_step C" u0 dx] by (simp add: fecs_def)
  have p: "fecs_step C u0 ! i
      = u0 ! i - 0.5 * C * (u0 ! ((i + 1) mod length u0) - u0 ! ((i + length u0 - 1) mod length u0))"
    using assms by (simp only: fecs_step_nth roll_right roll_left)
  show ?thesis
    using b f p by (simp add: leapfrog_nth_0)
qed

text \<open>
  Claim C7 on the field 0, 1, 0, 0 with \<^verbatim>\<open>C = 2\<close> and three steps: entry 1 is
  -1, 1, 1, 0.
\<close>

theorem leapfrog_bootstrap_witness:
  "(0::nat) < length [0, 1, 0, 0::real]
   \<and> fst (leapfrog [0, 1, 0, 0] 2 2 3) ! 0 = [0, 1, 0, 0]
   \<and> fst (leapfrog [0, 1, 0, 0] 2 2 3) ! 1 = [- 1, 1, 1, 0]
   \<and> fst (fecs [0, 1, 0, 0] 2 2 1) ! 1 = [- 1, 1, 1, 0]
   \<and> fst (leapfrog [0, 1, 0, 0] 2 2 3) ! 1 ! 0 = - 1"
proof -
  have h: "(0::nat) < length [0, 1, 0, 0::real]" by simp
  have v: "fecs_step 2 [0, 1, 0, 0] = [- 1, 1, 1, 0]"
    by (simp add: fecs_step_def roll_def vsub_def smul_def)
  have t: "fst (leapfrog [0, 1, 0, 0] 2 2 3) ! 0 = [0, 1, 0, 0]
       \<and> fst (leapfrog [0, 1, 0, 0] 2 2 3) ! 1 = fecs_step 2 [0, 1, 0, 0]
       \<and> fst (leapfrog [0, 1, 0, 0] 2 2 3) ! 1 = fst (fecs [0, 1, 0, 0] 2 2 1) ! 1"
    using leapfrog_bootstrap [OF h, where C = 2 and dx = 2 and Nt = 3] by blast
  from h t show ?thesis
    unfolding v by auto
qed

section \<open>Mass trace\<close>

text \<open>
  Claim C8: for each of the four schemes and every index \<^verbatim>\<open>k\<close> from 0 to \<^verbatim>\<open>Nt\<close>, the
  entry \<^verbatim>\<open>k\<close> of the mass trace is \<^verbatim>\<open>dx\<close> times the sum of the values of the
  snapshot \<^verbatim>\<open>k\<close>.
\<close>

theorem mass_trace_consistent:
  assumes "int k \<le> Nt"
  shows "snd (fecs u0 C dx Nt) ! k = dx * sum_list (fst (fecs u0 C dx Nt) ! k)
       \<and> snd (upwind u0 C dx Nt) ! k = dx * sum_list (fst (upwind u0 C dx Nt) ! k)
       \<and> snd (leapfrog u0 C dx Nt) ! k = dx * sum_list (fst (leapfrog u0 C dx Nt) ! k)
       \<and> snd (lax_wendroff u0 C dx Nt) ! k = dx * sum_list (fst (lax_wendroff u0 C dx Nt) ! k)"
proof -
  have k: "k \<le> nat Nt" using assms by linarith
  show ?thesis
    by (simp add: fecs_def upwind_def lax_wendroff_def one_level_nth [OF k]
        leapfrog_mass_nth [OF assms])
qed

text \<open>
  Claim C8 at step 1 of a run of one step on the field 0, 1, 0, 0 with \<^verbatim>\<open>C = 2\<close> and
  \<^verbatim>\<open>dx = 2\<close>.
\<close>

theorem mass_trace_consistent_witness:
  "int 1 \<le> (1::int)
   \<and> snd (fecs [0, 1, 0, 0] 2 2 1) ! 1 = 2 * sum_list (fst (fecs [0, 1, 0, 0] 2 2 1) ! 1)
   \<and> snd (upwind [0, 1, 0, 0] 2 2 1) ! 1 = 2 * sum_list (fst (upwind [0, 1, 0, 0] 2 2 1) ! 1)
   \<and> snd (leapfrog [0, 1, 0, 0] 2 2 1) ! 1 = 2 * sum_list (fst (leapfrog [0, 1, 0, 0] 2 2 1) ! 1)
   \<and> snd (lax_wendroff [0, 1, 0, 0] 2 2 1) ! 1
       = 2 * sum_list (fst (lax_wendroff [0, 1, 0, 0] 2 2 1) ! 1)"
proof -
  have h: "int 1 \<le> (1::int)" by simp
  from h mass_trace_consistent [OF h, of "[0, 1, 0, 0]" 2 2] show ?thesis
    by blast
qed

text \<open>
  Claim C10: in exact real arithmetic, for each of the four schemes, every initial
  field, every \<^verbatim>\<open>C\<close> and every index \<^verbatim>\<open>k\<close> from 0 to \<^verbatim>\<open>Nt\<close>, the sum of the values
  of the snapshot \<^verbatim>\<open>k\<close> is the sum of the values of the initial field, and the entry
  \<^verbatim>\<open>k\<close> of the mass trace is \<^verbatim>\<open>dx\<close> times that sum.
\<close>

theorem mass_conserved:
  assumes "int k \<le> Nt"
  shows "sum_list (fst (fecs u0 C dx Nt) ! k) = sum_list u0
       \<and> sum_list (fst (upwind u0 C dx Nt) ! k) = sum_list u0
       \<and> sum_list (fst (leapfrog u0 C dx Nt) ! k) = sum_list u0
       \<and> sum_list (fst (lax_wendroff u0 C dx Nt) ! k) = sum_list u0
       \<and> snd (fecs u0 C dx Nt) ! k = dx * sum_list u0
       \<and> snd (upwind u0 C dx Nt) ! k = dx * sum_list u0
       \<and> snd (leapfrog u0 C dx Nt) ! k = dx * sum_list u0
       \<and> snd (lax_wendroff u0 C dx Nt) ! k = dx * sum_list u0"
proof -
  have k: "k \<le> nat Nt" using assms by linarith
  have a: "sum_list ((fecs_step C ^^ k) u0) = sum_list u0"
    by (rule funpow_sum_invariant) (rule sum_fecs_step)
  have b: "sum_list ((upwind_step C ^^ k) u0) = sum_list u0"
    by (rule funpow_sum_invariant) (rule sum_upwind_step)
  have c: "sum_list ((lw_step C ^^ k) u0) = sum_list u0"
    by (rule funpow_sum_invariant) (rule sum_lw_step)
  show ?thesis
    by (simp add: fecs_def upwind_def lax_wendroff_def one_level_nth [OF k] a b c
        leapfrog_mass_nth [OF assms] leapfrog_sum_nth [OF assms])
qed

text \<open>
  Claim C10 at step 2 of a run of two steps on the field 0, 1, 0, 0, of sum 1, with
  \<^verbatim>\<open>C = 2\<close> and \<^verbatim>\<open>dx = 2\<close>.
\<close>

theorem mass_conserved_witness:
  "int 2 \<le> (2::int)
   \<and> sum_list (fst (fecs [0, 1, 0, 0] 2 2 2) ! 2) = 1
   \<and> sum_list (fst (upwind [0, 1, 0, 0] 2 2 2) ! 2) = 1
   \<and> sum_list (fst (leapfrog [0, 1, 0, 0] 2 2 2) ! 2) = 1
   \<and> sum_list (fst (lax_wendroff [0, 1, 0, 0] 2 2 2) ! 2) = 1
   \<and> snd (fecs [0, 1, 0, 0] 2 2 2) ! 2 = 2
   \<and> snd (upwind [0, 1, 0, 0] 2 2 2) ! 2 = 2
   \<and> snd (leapfrog [0, 1, 0, 0] 2 2 2) ! 2 = 2
   \<and> snd (lax_wendroff [0, 1, 0, 0] 2 2 2) ! 2 = 2"
proof -
  have h: "int 2 \<le> (2::int)" by simp
  show ?thesis
    using mass_conserved [OF h, of "[0, 1, 0, 0]" 2 2] by simp
qed

section \<open>Growth of FECS on the Bell\<close>






section \<open>Growth of the energy under FECS\<close>










































end
